theory Spec2Isabelle
  imports Complex_Main
begin

section \<open>Python values used by both services\<close>

text \<open>
  Strings are lists of characters, one \<^typ>\<open>char\<close> per code point, so the model covers the
  code points U+0000 to U+00FF. Finite floats are exact rationals (every finite double
  is one); NaN and the infinities are outside the model.
\<close>

text \<open>
  An exception raised by a library the services call (the model runtimes, the file
  system, the audio encoder) or by the interpreter. These are ordinary
  \<^verbatim>\<open>Exception\<close> subclasses, none of them FastAPI's \<^verbatim>\<open>HTTPException\<close>.
\<close>

datatype exn =
    KeyError string
  | ZeroDivisionError
  | Exception string

text \<open>What a handler raises: its own \<^verbatim>\<open>HTTPException(status_code, detail)\<close>, the
  framework's rejection of a request body that fails the declared field constraints
  (one entry per offending field), or a library exception that no handler caught.\<close>

datatype http_error =
    HTTPException nat string
  | RequestValidationError "(string \<times> string) list"
  | Uncaught exn

subsection \<open>\<^verbatim>\<open>round(x, ndigits)\<close>\<close>

text \<open>Rounding to \<open>n\<close> decimals, ties to the even neighbour.\<close>

definition round_half_even :: "rat \<Rightarrow> int" where
  "round_half_even s =
     (let f = \<lfloor>s\<rfloor>; d = s - of_int f
      in if d < 1 / 2 then f
         else if 1 / 2 < d then f + 1
         else if even f then f else f + 1)"

definition py_round :: "rat \<Rightarrow> nat \<Rightarrow> rat" where
  "py_round x n = of_int (round_half_even (x * 10 ^ n)) / 10 ^ n"

subsection \<open>\<^verbatim>\<open>sep.join(xs)\<close>, \<^verbatim>\<open>s.strip()\<close>, \<^verbatim>\<open>repr\<close>, \<^verbatim>\<open>str(e)\<close>\<close>

fun py_join :: "string \<Rightarrow> string list \<Rightarrow> string" where
  "py_join sep [] = []"
| "py_join sep [x] = x"
| "py_join sep (x # y # ys) = x @ sep @ py_join sep (y # ys)"

text \<open>The whitespace of \<^verbatim>\<open>str.isspace\<close> below U+0100.\<close>

definition isspace :: "char \<Rightarrow> bool" where
  "isspace c =
     (let k = (of_char c :: nat)
      in (9 \<le> k \<and> k \<le> 13) \<or> (28 \<le> k \<and> k \<le> 32) \<or> k = 133 \<or> k = 160)"

definition py_strip :: "string \<Rightarrow> string" where
  "py_strip s = rev (dropWhile isspace (rev (dropWhile isspace s)))"

definition hexdigit :: "nat \<Rightarrow> char" where
  "hexdigit k = (if k < 10 then char_of (48 + k) else char_of (87 + k))"

text \<open>The characters below U+0100 that \<^verbatim>\<open>str.isprintable\<close> accepts.\<close>

definition isprintable :: "char \<Rightarrow> bool" where
  "isprintable c =
     (let k = (of_char c :: nat)
      in (32 \<le> k \<and> k < 127) \<or> (161 \<le> k \<and> k \<noteq> 173))"

definition repr_char :: "char \<Rightarrow> char \<Rightarrow> string" where
  "repr_char q c =
     (if c = q \<or> c = CHR 0x5C then [CHR 0x5C, c]
      else if c = CHR 0x09 then [CHR 0x5C, CHR ''t'']
      else if c = CHR 0x0A then [CHR 0x5C, CHR ''n'']
      else if c = CHR 0x0D then [CHR 0x5C, CHR ''r'']
      else if \<not> isprintable c
        then [CHR 0x5C, CHR ''x'', hexdigit (of_char c div 16), hexdigit (of_char c mod 16)]
      else [c])"

definition repr_str :: "string \<Rightarrow> string" where
  "repr_str s =
     (let q = (if CHR 0x27 \<in> set s \<and> CHR 0x22 \<notin> set s then CHR 0x22 else CHR 0x27)
      in [q] @ concat (map (repr_char q) s) @ [q])"

definition repr_list :: "string list \<Rightarrow> string" where
  "repr_list xs = ''['' @ py_join '', '' (map repr_str xs) @ '']''"

fun str_exn :: "exn \<Rightarrow> string" where
  "str_exn (KeyError k) = repr_str k"
| "str_exn ZeroDivisionError = ''float division by zero''"
| "str_exn (Exception msg) = msg"

section \<open>Synthesis service (\<^verbatim>\<open>tts/api_server.py\<close>)\<close>

subsection \<open>The model runtime, as the server sees it\<close>

type_synonym codes = "int list"
type_synonym waveform = "rat list"
type_synonym bytes = "nat list"

text \<open>The dictionary \<^verbatim>\<open>get_preset_voice\<close> returns; a key may be absent.\<close>

record voice_data =
  vd_codes :: "codes option"
  vd_text :: "string option"

record infer_args =
  ia_text :: string
  ia_ref_codes :: codes
  ia_ref_text :: string
  ia_temperature :: rat
  ia_max_chars :: int

text \<open>
  The handle \<^verbatim>\<open>tts\<close>: the preset table as (description, id) pairs, the preset lookup
  and the inference call. The last two can raise; inference can also return
  \<^verbatim>\<open>None\<close>.
\<close>

record tts_model =
  list_preset_voices :: "(string \<times> string) list"
  get_preset_voice :: "string \<Rightarrow> exn + voice_data"
  infer :: "infer_args \<Rightarrow> exn + waveform option"

text \<open>Module globals: configuration, the handle (\<^verbatim>\<open>None\<close> until the lifespan hook
  has built it) and the start time.\<close>

record tts_server =
  BACKBONE_REPO :: string
  DEFAULT_VOICE :: string
  tts :: "tts_model option"
  tts_start_time :: rat

text \<open>What a handler did besides returning: its calls into the model and its log lines.\<close>

datatype tts_event =
    Call_list_preset_voices
  | Call_get_preset_voice string
  | Call_infer infer_args
  | Log_info_TTS string nat rat rat rat
  | Log_error string

subsection \<open>Request and response models\<close>

record TTSRequest =
  req_text :: string
  req_voice :: "string option"
  req_temperature :: rat
  req_max_chars_chunk :: int
  req_format :: string

record VoiceInfo =
  vi_id :: string
  vi_description :: string
  vi_ref_text :: string

text \<open>
  What the framework finds for one field of a JSON body: nothing, \<^verbatim>\<open>null\<close>, a value
  that it cannot convert to the type the field declares (the number 5 for a string
  field), or a value that it converts, as converted.
\<close>

datatype 'a field = Absent | Null | Wrong_type | Value 'a

record tts_body =
  body_text :: "string field"
  body_voice :: "string field"
  body_temperature :: "rat field"
  body_max_chars_chunk :: "int field"
  body_format :: "string field"

text \<open>The body of \<^verbatim>\<open>POST /api/tts\<close> before validation: a JSON object, or anything else.\<close>

datatype json_body = Not_an_object | Object tts_body

text \<open>The streamed WAV answer; the two header values are printed with three decimals.\<close>

record StreamingResponse =
  sr_body :: bytes
  sr_media_type :: string
  sr_content_disposition :: string
  sr_x_process_time :: rat
  sr_x_audio_duration :: rat

text \<open>What one request to \<^verbatim>\<open>/api/tts\<close> meets outside the server: the two readings of
  \<^verbatim>\<open>time.time()\<close> and the WAV encoder \<^verbatim>\<open>sf.write\<close>, which can raise.\<close>

record tts_env =
  te_time_start :: rat
  te_time_end :: rat
  te_sf_write :: "waveform \<Rightarrow> exn + bytes"

record HealthResponse =
  hr_status :: string
  hr_model :: string
  hr_default_voice :: string
  hr_uptime_seconds :: rat

subsection \<open>\<^verbatim>\<open>GET /api/health\<close>\<close>

definition health :: "tts_server \<Rightarrow> rat \<Rightarrow> HealthResponse" where
  "health srv now =
     \<lparr> hr_status = (if tts srv \<noteq> None then ''ok'' else ''loading''),
       hr_model = BACKBONE_REPO srv,
       hr_default_voice = DEFAULT_VOICE srv,
       hr_uptime_seconds = py_round (now - tts_start_time srv) 1 \<rparr>"

subsection \<open>\<^verbatim>\<open>TTSRequest\<close>: the declared field constraints\<close>

definition text_errors :: "string field \<Rightarrow> (string \<times> string) list" where
  "text_errors t =
     (case t of
        Absent \<Rightarrow> [(''text'', ''missing'')]
      | Null \<Rightarrow> [(''text'', ''string_type'')]
      | Wrong_type \<Rightarrow> [(''text'', ''string_type'')]
      | Value s \<Rightarrow>
          if length s < 1 then [(''text'', ''string_too_short'')]
          else if 5000 < length s then [(''text'', ''string_too_long'')]
          else [])"

text \<open>\<^verbatim>\<open>voice\<close> is an optional string: \<^verbatim>\<open>null\<close> is one of its values.\<close>

definition voice_errors :: "string field \<Rightarrow> (string \<times> string) list" where
  "voice_errors v =
     (case v of
        Wrong_type \<Rightarrow> [(''voice'', ''string_type'')]
      | _ \<Rightarrow> [])"

definition temperature_errors :: "rat field \<Rightarrow> (string \<times> string) list" where
  "temperature_errors t =
     (case t of
        Absent \<Rightarrow> []
      | Null \<Rightarrow> [(''temperature'', ''float_type'')]
      | Wrong_type \<Rightarrow> [(''temperature'', ''float_type'')]
      | Value x \<Rightarrow>
          if \<not> 1 / 10 \<le> x then [(''temperature'', ''greater_than_equal'')]
          else if \<not> x \<le> 3 / 2 then [(''temperature'', ''less_than_equal'')]
          else [])"

definition max_chars_chunk_errors :: "int field \<Rightarrow> (string \<times> string) list" where
  "max_chars_chunk_errors n =
     (case n of
        Absent \<Rightarrow> []
      | Null \<Rightarrow> [(''max_chars_chunk'', ''int_type'')]
      | Wrong_type \<Rightarrow> [(''max_chars_chunk'', ''int_type'')]
      | Value k \<Rightarrow>
          if \<not> 64 \<le> k then [(''max_chars_chunk'', ''greater_than_equal'')]
          else if \<not> k \<le> 512 then [(''max_chars_chunk'', ''less_than_equal'')]
          else [])"

definition format_errors :: "string field \<Rightarrow> (string \<times> string) list" where
  "format_errors f =
     (case f of
        Null \<Rightarrow> [(''format'', ''string_type'')]
      | Wrong_type \<Rightarrow> [(''format'', ''string_type'')]
      | _ \<Rightarrow> [])"

text \<open>Building the request object: every field is checked, the errors are collected in
  the order of the fields, and absent optional fields take their declared defaults.\<close>

definition TTSRequest_validate :: "json_body \<Rightarrow> http_error + TTSRequest" where
  "TTSRequest_validate body =
     (case body of
        Not_an_object \<Rightarrow> Inl (RequestValidationError [(''body'', ''model_attributes_type'')])
      | Object b \<Rightarrow>
          (let errs = text_errors (body_text b) @ voice_errors (body_voice b)
                      @ temperature_errors (body_temperature b)
                      @ max_chars_chunk_errors (body_max_chars_chunk b)
                      @ format_errors (body_format b)
           in (case (errs, body_text b) of
                 ([], Value t) \<Rightarrow>
                   Inr \<lparr> req_text = t,
                         req_voice = (case body_voice b of Value v \<Rightarrow> Some v | _ \<Rightarrow> None),
                         req_temperature = (case body_temperature b of Value x \<Rightarrow> x | _ \<Rightarrow> 1),
                         req_max_chars_chunk =
                           (case body_max_chars_chunk b of Value k \<Rightarrow> k | _ \<Rightarrow> 256),
                         req_format = (case body_format b of Value f \<Rightarrow> f | _ \<Rightarrow> ''wav'') \<rparr>
               | _ \<Rightarrow> Inl (RequestValidationError errs))))"

subsection \<open>\<^verbatim>\<open>GET /api/voices\<close>\<close>

text \<open>The body of the \<^verbatim>\<open>try\<close> in the loop: the lookup can raise, and the dictionary
  can lack the key; both give the empty string.\<close>

definition ref_text_of :: "tts_model \<Rightarrow> string \<Rightarrow> string" where
  "ref_text_of m vid =
     (case get_preset_voice m vid of
        Inl e \<Rightarrow> []
      | Inr voice_data \<Rightarrow> (case vd_text voice_data of None \<Rightarrow> [] | Some t \<Rightarrow> t))"

fun voices_loop :: "tts_model \<Rightarrow> (string \<times> string) list \<Rightarrow> VoiceInfo list \<Rightarrow> VoiceInfo list" where
  "voices_loop m [] voices = voices"
| "voices_loop m ((desc, vid) # rest) voices =
     voices_loop m rest
       (voices @ [\<lparr> vi_id = vid, vi_description = desc, vi_ref_text = ref_text_of m vid \<rparr>])"

definition list_voices :: "tts_server \<Rightarrow> http_error + VoiceInfo list" where
  "list_voices srv =
     (case tts srv of
        None \<Rightarrow> Inl (HTTPException 503 ''Model not loaded yet'')
      | Some m \<Rightarrow> Inr (voices_loop m (list_preset_voices m) []))"

subsection \<open>\<^verbatim>\<open>POST /api/tts\<close>\<close>

type_synonym tts_outcome = "(http_error + StreamingResponse) \<times> tts_event list"

text \<open>The generic \<^verbatim>\<open>except Exception\<close> clause: log, then answer 500 with the message.\<close>

definition synthesis_failed :: "exn \<Rightarrow> tts_event list \<Rightarrow> tts_outcome" where
  "synthesis_failed e tr =
     (Inl (HTTPException 500 (''Synthesis failed: '' @ str_exn e)),
      tr @ [Log_error (''TTS error: '' @ str_exn e)])"

definition resolve_voice :: "tts_server \<Rightarrow> TTSRequest \<Rightarrow> string" where
  "resolve_voice srv req =
     (case req_voice req of
        None \<Rightarrow> DEFAULT_VOICE srv
      | Some v \<Rightarrow> if v = [] then DEFAULT_VOICE srv else v)"

definition voice_not_found :: "string \<Rightarrow> string list \<Rightarrow> string" where
  "voice_not_found voice_id available_ids =
     ''Voice '' @ [CHR 0x27] @ voice_id @ [CHR 0x27] @ '' not found. Available: ''
       @ repr_list available_ids"

text \<open>Lines 207 to 229: encode, time, log and answer.\<close>

definition stream_wav ::
  "tts_env \<Rightarrow> string \<Rightarrow> TTSRequest \<Rightarrow> waveform \<Rightarrow> tts_event list \<Rightarrow> tts_outcome" where
  "stream_wav env voice_id req audio_wav tr =
     (case te_sf_write env audio_wav of
        Inl e \<Rightarrow> synthesis_failed e tr
      | Inr buffer \<Rightarrow>
          (let process_time = te_time_end env - te_time_start env;
               duration = of_nat (length audio_wav) / 24000
           in (if process_time = 0 then synthesis_failed ZeroDivisionError tr
               else (Inr \<lparr> sr_body = buffer,
                            sr_media_type = ''audio/wav'',
                            sr_content_disposition = ''attachment; filename=speech.wav'',
                            sr_x_process_time = py_round process_time 3,
                            sr_x_audio_duration = py_round duration 3 \<rparr>,
                     tr @ [Log_info_TTS voice_id (length (req_text req)) duration process_time
                             (duration / process_time)]))))"

text \<open>Lines 196 to 205: the inference call and the check of what it returned.\<close>

definition run_infer ::
  "tts_model \<Rightarrow> tts_env \<Rightarrow> string \<Rightarrow> TTSRequest \<Rightarrow> infer_args \<Rightarrow> tts_event list \<Rightarrow> tts_outcome"
  where
  "run_infer m env voice_id req args tr =
     (case infer m args of
        Inl e \<Rightarrow> synthesis_failed e (tr @ [Call_infer args])
      | Inr None \<Rightarrow> (Inl (HTTPException 500 ''Failed to generate audio''), tr @ [Call_infer args])
      | Inr (Some audio_wav) \<Rightarrow>
          (if length audio_wav = 0
           then (Inl (HTTPException 500 ''Failed to generate audio''), tr @ [Call_infer args])
           else stream_wav env voice_id req audio_wav (tr @ [Call_infer args])))"

text \<open>Lines 191 to 202: the preset lookup and the two subscripts that build the arguments
  of the inference call, each of which can raise inside the \<^verbatim>\<open>try\<close>.\<close>

definition synthesize_try ::
  "tts_model \<Rightarrow> tts_env \<Rightarrow> string \<Rightarrow> TTSRequest \<Rightarrow> tts_event list \<Rightarrow> tts_outcome" where
  "synthesize_try m env voice_id req tr =
     (case get_preset_voice m voice_id of
        Inl e \<Rightarrow> synthesis_failed e (tr @ [Call_get_preset_voice voice_id])
      | Inr voice_data \<Rightarrow>
          (case vd_codes voice_data of
             None \<Rightarrow> synthesis_failed (KeyError ''codes'') (tr @ [Call_get_preset_voice voice_id])
           | Some ref_codes \<Rightarrow>
               (case vd_text voice_data of
                  None \<Rightarrow>
                    synthesis_failed (KeyError ''text'') (tr @ [Call_get_preset_voice voice_id])
                | Some ref_text \<Rightarrow>
                    run_infer m env voice_id req
                      \<lparr> ia_text = req_text req,
                        ia_ref_codes = ref_codes,
                        ia_ref_text = ref_text,
                        ia_temperature = req_temperature req,
                        ia_max_chars = req_max_chars_chunk req \<rparr>
                      (tr @ [Call_get_preset_voice voice_id]))))"

definition synthesize :: "tts_server \<Rightarrow> tts_env \<Rightarrow> TTSRequest \<Rightarrow> tts_outcome" where
  "synthesize srv env req =
     (case tts srv of
        None \<Rightarrow> (Inl (HTTPException 503 ''Model not loaded yet''), [])
      | Some m \<Rightarrow>
          (let voice_id = resolve_voice srv req;
               available_ids = map snd (list_preset_voices m)
           in (if voice_id \<notin> set available_ids
               then (Inl (HTTPException 400 (voice_not_found voice_id available_ids)),
                     [Call_list_preset_voices])
               else synthesize_try m env voice_id req [Call_list_preset_voices])))"

text \<open>The endpoint: the body is validated into a \<^verbatim>\<open>TTSRequest\<close> before the handler
  runs; a body that fails is answered without entering it.\<close>

definition post_api_tts :: "tts_server \<Rightarrow> tts_env \<Rightarrow> json_body \<Rightarrow> tts_outcome" where
  "post_api_tts srv env body =
     (case TTSRequest_validate body of
        Inl err \<Rightarrow> (Inl err, [])
      | Inr req \<Rightarrow> synthesize srv env req)"

text \<open>How often a handler called the model's inference.\<close>

fun is_infer :: "tts_event \<Rightarrow> bool" where
  "is_infer (Call_infer a) = True"
| "is_infer _ = False"

definition infer_calls :: "tts_event list \<Rightarrow> nat" where
  "infer_calls tr = length (filter is_infer tr)"

section \<open>Transcription service (\<^verbatim>\<open>whisper/app.py\<close>)\<close>

subsection \<open>The model runtime, as the server sees it\<close>

record Segment =
  seg_start :: rat
  seg_end :: rat
  seg_text :: string

record TranscriptionInfo =
  ti_language :: string
  ti_language_probability :: rat
  ti_duration :: rat

text \<open>
  The lazily produced segment sequence: it yields a segment and continues, stops, or
  raises in the middle (the decoding runs while the caller iterates). The sequence is
  finite: the audio bounds the number of segments.
\<close>

datatype 'a generator =
    StopIteration
  | Yield 'a "'a generator"
  | Raise exn

record transcribe_args =
  ta_audio :: string
  ta_language :: "string option"
  ta_task :: "string option"
  ta_vad_filter :: bool
  ta_vad_parameters :: "(string \<times> int) list"

record whisper_model =
  transcribe :: "transcribe_args \<Rightarrow> exn + Segment generator \<times> TranscriptionInfo"

record result_segment =
  rs_start :: rat
  rs_end :: rat
  rs_text :: string

text \<open>What a handler did besides returning: its calls of the model, each with the
  arguments the model received, and its log lines.\<close>

datatype stt_event =
    Call_transcribe transcribe_args
  | Log_info_STT string rat rat nat
  | Log_error_STT string

subsection \<open>\<^verbatim>\<open>do_transcribe\<close>\<close>

text \<open>The \<^verbatim>\<open>for seg in segments\<close> loop with its two accumulators.\<close>

fun collect_segments ::
  "Segment generator \<Rightarrow> result_segment list \<Rightarrow> string list
     \<Rightarrow> exn + result_segment list \<times> string list" where
  "collect_segments StopIteration result_segments full_text = Inr (result_segments, full_text)"
| "collect_segments (Raise e) result_segments full_text = Inl e"
| "collect_segments (Yield seg rest) result_segments full_text =
     collect_segments rest
       (result_segments @
          [\<lparr> rs_start = py_round (seg_start seg) 2,
              rs_end = py_round (seg_end seg) 2,
              rs_text = py_strip (seg_text seg) \<rparr>])
       (full_text @ [py_strip (seg_text seg)])"

text \<open>Lines 41 to 48 make the one call of the model; the call is recorded with the
  arguments that are handed over.\<close>

definition do_transcribe ::
  "whisper_model \<Rightarrow> string \<Rightarrow> string option \<Rightarrow> string option
     \<Rightarrow> (exn + result_segment list \<times> string list \<times> TranscriptionInfo) \<times> stt_event list" where
  "do_transcribe m audio_path language task =
     (let lang = (if language \<noteq> Some ''auto'' then language else None);
          call = \<lparr> ta_audio = audio_path,
                   ta_language = lang,
                   ta_task = task,
                   ta_vad_filter = True,
                   ta_vad_parameters = [(''min_silence_duration_ms'', 500)] \<rparr>
      in ((case transcribe m call of
             Inl e \<Rightarrow> Inl e
           | Inr (segments, info) \<Rightarrow>
               (case collect_segments segments [] [] of
                  Inl e \<Rightarrow> Inl e
                | Inr (result_segments, full_text) \<Rightarrow> Inr (result_segments, full_text, info))),
          [Call_transcribe call]))"

subsection \<open>\<^verbatim>\<open>POST /api/transcribe\<close>\<close>

text \<open>\<^verbatim>\<open>os.path.splitext\<close> on a POSIX path: the extension starts at the last dot of the
  last path component, leading dots of that component apart.\<close>

definition splitext :: "string \<Rightarrow> string \<times> string" where
  "splitext p =
     (let name = rev (takeWhile (\<lambda>c. c \<noteq> CHR ''/'') (rev p));
          stem = dropWhile (\<lambda>c. c = CHR ''.'') name
      in if CHR ''.'' \<in> set stem
         then (let ext = CHR ''.'' # rev (takeWhile (\<lambda>c. c \<noteq> CHR ''.'') (rev p))
               in (take (length p - length ext) p, ext))
         else (p, []))"

text \<open>The upload: its file name, if any, and what \<^verbatim>\<open>await file.read()\<close> gives.\<close>

record UploadFile =
  uf_filename :: "string option"
  uf_read :: "exn + bytes"

text \<open>
  What one request meets outside the server: \<^verbatim>\<open>NamedTemporaryFile(delete=False, suffix)\<close>
  creates a file and gives its name, or raises; \<^verbatim>\<open>tmp.write\<close> can raise; and the two
  readings of \<^verbatim>\<open>time.time()\<close>.
\<close>

record stt_env =
  se_NamedTemporaryFile :: "string \<Rightarrow> exn + string"
  se_write :: "bytes \<Rightarrow> exn option"
  se_time_start :: rat
  se_time_end :: rat

text \<open>The files that exist, with their contents.\<close>

type_synonym filesystem = "string \<rightharpoonup> bytes"

record TranscribeResponse =
  tr_text :: string
  tr_segments :: "result_segment list"
  tr_language :: string
  tr_language_probability :: rat
  tr_duration :: rat
  tr_process_time :: rat

type_synonym stt_outcome = "(http_error + TranscribeResponse) \<times> filesystem \<times> stt_event list"

text \<open>Lines 144 to 166: the \<^verbatim>\<open>try\<close> with its \<^verbatim>\<open>except\<close> and its \<^verbatim>\<open>finally\<close>, which
  unlinks the file on both ways out.\<close>

definition transcribe_try ::
  "whisper_model \<Rightarrow> stt_env \<Rightarrow> filesystem \<Rightarrow> string \<Rightarrow> string option \<Rightarrow> string option
     \<Rightarrow> stt_outcome" where
  "transcribe_try m env fs tmp_path language task =
     (case do_transcribe m tmp_path language task of
        (Inl e, calls) \<Rightarrow>
          (Inl (HTTPException 500 (str_exn e)),
           fs(tmp_path := None),
           calls @ [Log_error_STT (''STT error: '' @ str_exn e)])
      | (Inr (result_segments, full_text, info), calls) \<Rightarrow>
          (let elapsed = se_time_end env - se_time_start env
           in (Inr \<lparr> tr_text = py_join '' '' full_text,
                     tr_segments = result_segments,
                     tr_language = ti_language info,
                     tr_language_probability = py_round (ti_language_probability info) 3,
                     tr_duration = py_round (ti_duration info) 2,
                     tr_process_time = py_round elapsed 2 \<rparr>,
               fs(tmp_path := None),
               calls @ [Log_info_STT (ti_language info) (ti_duration info) elapsed
                          (length result_segments)])))"

text \<open>
  Lines 138 to 142 come first, outside the \<^verbatim>\<open>try\<close>: the temporary file is created,
  the upload is read and written into it. The \<^verbatim>\<open>with\<close> block closes the file when it
  is left, also by an exception, and \<^verbatim>\<open>delete=False\<close> keeps it on disk.
\<close>

definition transcribe_api ::
  "whisper_model \<Rightarrow> stt_env \<Rightarrow> filesystem \<Rightarrow> UploadFile \<Rightarrow> string option \<Rightarrow> string option
     \<Rightarrow> stt_outcome" where
  "transcribe_api m env fs file language task =
     (let suffix = snd (splitext (case uf_filename file of
                                    None \<Rightarrow> ''audio.wav''
                                  | Some n \<Rightarrow> if n = [] then ''audio.wav'' else n))
      in case se_NamedTemporaryFile env suffix of
           Inl e \<Rightarrow> (Inl (Uncaught e), fs, [])
         | Inr tmp_path \<Rightarrow>
             (case uf_read file of
                Inl e \<Rightarrow> (Inl (Uncaught e), fs(tmp_path \<mapsto> []), [])
              | Inr content \<Rightarrow>
                  (case se_write env content of
                     Some e \<Rightarrow> (Inl (Uncaught e), fs(tmp_path \<mapsto> []), [])
                   | None \<Rightarrow>
                       transcribe_try m env (fs(tmp_path \<mapsto> content)) tmp_path language task)))"

text \<open>The endpoint: the multipart form is bound to the handler's parameters first. The
  file part is required. A \<^verbatim>\<open>language\<close> or \<^verbatim>\<open>task\<close> field that is absent, or present
  with an empty value, takes its declared default.\<close>

definition post_api_transcribe ::
  "whisper_model \<Rightarrow> stt_env \<Rightarrow> filesystem \<Rightarrow> UploadFile option \<Rightarrow> string option
     \<Rightarrow> string option \<Rightarrow> stt_outcome" where
  "post_api_transcribe m env fs file language task =
     (case file of
        None \<Rightarrow> (Inl (RequestValidationError [(''file'', ''missing'')]), fs, [])
      | Some f \<Rightarrow>
          transcribe_api m env fs f
            (case language of
               None \<Rightarrow> Some ''vi''
             | Some l \<Rightarrow> if l = [] then Some ''vi'' else Some l)
            (case task of
               None \<Rightarrow> Some ''transcribe''
             | Some t \<Rightarrow> if t = [] then Some ''transcribe'' else Some t))"

text \<open>The segments a generator yields before it stops or raises.\<close>

fun yielded :: "'a generator \<Rightarrow> 'a list" where
  "yielded StopIteration = []"
| "yielded (Raise e) = []"
| "yielded (Yield x rest) = x # yielded rest"

section \<open>Example configurations\<close>

text \<open>A server with two presets; only the first has stored metadata. Inference
  answers by the text it is given, so that each way out of the handler can be reached.\<close>

definition example_model :: tts_model where
  "example_model =
     \<lparr> list_preset_voices =
         [(''Doan (female, north)'', ''Doan''), (''Vinh (male, south)'', ''Vinh'')],
       get_preset_voice =
         (\<lambda>vid. if vid = ''Doan''
                then Inr \<lparr> vd_codes = Some [3, 1, 4], vd_text = Some ''xin chao'' \<rparr>
                else Inl (KeyError vid)),
       infer =
         (\<lambda>a. if ia_text a = ''none'' then Inr None
              else if ia_text a = ''empty'' then Inr (Some [])
              else if ia_text a = ''boom'' then Inl (Exception ''CUDA out of memory'')
              else Inr (Some [0, 1 / 2, - 1 / 2])) \<rparr>"

definition example_server :: "tts_model option \<Rightarrow> tts_server" where
  "example_server h =
     \<lparr> BACKBONE_REPO = ''pnnbao-ump/VieNeu-TTS'', DEFAULT_VOICE = ''Doan'', tts = h,
       tts_start_time = 100 \<rparr>"

definition example_env :: tts_env where
  "example_env =
     \<lparr> te_time_start = 200, te_time_end = 201, te_sf_write = (\<lambda>w. Inr [82, 73, 70, 70]) \<rparr>"

definition example_request :: "string \<Rightarrow> string option \<Rightarrow> TTSRequest" where
  "example_request t v =
     \<lparr> req_text = t, req_voice = v, req_temperature = 1, req_max_chars_chunk = 256,
       req_format = ''wav'' \<rparr>"

definition example_body :: "string \<Rightarrow> rat \<Rightarrow> tts_body" where
  "example_body t x =
     \<lparr> body_text = Value t, body_voice = Absent, body_temperature = Value x,
       body_max_chars_chunk = Absent, body_format = Absent \<rparr>"

text \<open>A transcription model that yields two segments, or raises when asked for the task
  "explode"; it reports the language it was given, and "ja" when it was given none. A
  temporary directory that always has room; an upload that arrives, and one
  whose read fails.\<close>

definition example_segments :: "Segment generator" where
  "example_segments =
     Yield \<lparr> seg_start = 0, seg_end = 1234 / 1000, seg_text = '' xin chao '' \<rparr>
       (Yield \<lparr> seg_start = 1234 / 1000, seg_end = 5 / 2, seg_text = '' the gioi'' \<rparr>
          StopIteration)"

definition example_whisper :: whisper_model where
  "example_whisper =
     \<lparr> transcribe =
         (\<lambda>a. if ta_task a = Some ''explode'' then Inl (Exception ''CUDA out of memory'')
              else Inr (example_segments,
                        \<lparr> ti_language = (case ta_language a of None \<Rightarrow> ''ja'' | Some l \<Rightarrow> l),
                          ti_language_probability = 98765 / 100000,
                          ti_duration = 5 / 2 \<rparr>)) \<rparr>"

definition example_stt_env :: stt_env where
  "example_stt_env =
     \<lparr> se_NamedTemporaryFile = (\<lambda>suffix. Inr (''/tmp/tmpab12cd'' @ suffix)),
       se_write = (\<lambda>content. None),
       se_time_start = 10,
       se_time_end = 11 \<rparr>"

definition full_disk_env :: stt_env where
  "full_disk_env =
     example_stt_env \<lparr> se_write := (\<lambda>content. Some (Exception ''No space left on device'')) \<rparr>"

definition example_upload :: UploadFile where
  "example_upload = \<lparr> uf_filename = Some ''clip.mp3'', uf_read = Inr [73, 68, 51] \<rparr>"

definition broken_upload :: UploadFile where
  "broken_upload =
     \<lparr> uf_filename = Some ''clip.mp3'', uf_read = Inl (Exception ''client disconnected'') \<rparr>"

text \<open>A server whose presets include the empty identifier, while its configured default
  voice is not among them.\<close>

definition blank_preset_model :: tts_model where
  "blank_preset_model =
     example_model \<lparr> list_preset_voices := (''(unnamed)'', []) # list_preset_voices example_model \<rparr>"

definition ghost_server :: tts_server where
  "ghost_server = (example_server (Some blank_preset_model)) \<lparr> DEFAULT_VOICE := ''Ghost'' \<rparr>"

section \<open>Properties\<close>

subsection \<open>Health\<close>

text \<open>
  C1 (as amended). The status that \<^verbatim>\<open>GET /api/health\<close> of the synthesis service
  reports is "loading" while the model handle does not exist and "ok" once it does.
\<close>

theorem health_status:
  "hr_status (health srv now) = (if tts srv = None then ''loading'' else ''ok'')"
  by (simp add: health_def)

text \<open>
  C1 as written has the two values the other way round: it fails at a server whose
  handle is not built yet, which reports "loading" and not "ok", and at a server whose
  handle exists, which reports "ok" and not "loading".
\<close>

theorem health_before_load_counterexample:
  "hr_status (health (example_server None) 105) = ''loading'' \<and>
   hr_status (health (example_server None) 105) \<noteq> ''ok'' \<and>
   hr_status (health (example_server (Some example_model)) 105) = ''ok'' \<and>
   hr_status (health (example_server (Some example_model)) 105) \<noteq> ''loading''"
  by (simp add: health_def example_server_def)

subsection \<open>The voice of a synthesis request\<close>

lemma stream_wav_voice:
  "stream_wav env v (r\<lparr>req_voice := x\<rparr>) a tr = stream_wav env v r a tr"
  by (simp add: stream_wav_def Let_def split: sum.splits)

lemma run_infer_voice:
  "run_infer m env v (r\<lparr>req_voice := x\<rparr>) a tr = run_infer m env v r a tr"
  by (simp add: run_infer_def stream_wav_voice split: sum.splits option.splits)

lemma synthesize_try_voice:
  "synthesize_try m env v (r\<lparr>req_voice := x\<rparr>) tr = synthesize_try m env v r tr"
  by (simp add: synthesize_try_def run_infer_voice split: sum.splits option.splits)

lemma TTSRequest_validate_empty_voice:
  "TTSRequest_validate (Object (b\<lparr>body_voice := Value []\<rparr>)) =
     (case TTSRequest_validate (Object (b\<lparr>body_voice := Absent\<rparr>)) of
        Inl e \<Rightarrow> Inl e
      | Inr r \<Rightarrow> Inr (r\<lparr>req_voice := Some []\<rparr>))"
  by (simp add: TTSRequest_validate_def voice_errors_def Let_def split: list.splits field.splits)

lemma TTSRequest_validate_absent_voice:
  "TTSRequest_validate (Object (b\<lparr>body_voice := Absent\<rparr>)) = Inr r \<Longrightarrow> r\<lparr>req_voice := None\<rparr> = r"
  by (auto simp add: TTSRequest_validate_def voice_errors_def Let_def split: list.splits field.splits)

text \<open>With the model loaded, the handler checks the resolved voice and goes on with it.\<close>

lemma synthesize_loaded:
  assumes "tts srv = Some m"
  shows "synthesize srv env req =
    (if resolve_voice srv req \<notin> set (map snd (list_preset_voices m))
     then (Inl (HTTPException 400
                 (voice_not_found (resolve_voice srv req) (map snd (list_preset_voices m)))),
           [Call_list_preset_voices])
     else synthesize_try m env (resolve_voice srv req) req [Call_list_preset_voices])"
  using assms by (simp add: synthesize_def Let_def)

lemma run_infer_trace:
  "\<exists>rest. snd (run_infer m env v req args tr) = tr @ Call_infer args # rest"
  by (simp add: run_infer_def stream_wav_def synthesis_failed_def Let_def
      split: sum.splits option.splits)

lemma run_infer_raises:
  "infer m args = Inl e \<Longrightarrow>
     fst (run_infer m env v req args tr) =
       Inl (HTTPException 500 (''Synthesis failed: '' @ str_exn e))"
  by (simp add: run_infer_def synthesis_failed_def)

lemma synthesize_try_trace:
  "\<exists>rest. snd (synthesize_try m env v req tr) = tr @ Call_get_preset_voice v # rest"
proof (cases "get_preset_voice m v")
  case (Inl e)
  then show ?thesis by (simp add: synthesize_try_def synthesis_failed_def)
next
  case (Inr vd)
  show ?thesis
  proof (cases "vd_codes vd")
    case None
    with Inr show ?thesis by (simp add: synthesize_try_def synthesis_failed_def)
  next
    case c: (Some c)
    show ?thesis
    proof (cases "vd_text vd")
      case None
      with Inr c show ?thesis by (simp add: synthesize_try_def synthesis_failed_def)
    next
      case (Some t)
      with Inr c have "synthesize_try m env v req tr =
          run_infer m env v req
            \<lparr> ia_text = req_text req, ia_ref_codes = c, ia_ref_text = t,
              ia_temperature = req_temperature req, ia_max_chars = req_max_chars_chunk req \<rparr>
            (tr @ [Call_get_preset_voice v])"
        by (simp add: synthesize_try_def)
      moreover obtain rest where "snd (run_infer m env v req
            \<lparr> ia_text = req_text req, ia_ref_codes = c, ia_ref_text = t,
              ia_temperature = req_temperature req, ia_max_chars = req_max_chars_chunk req \<rparr>
            (tr @ [Call_get_preset_voice v])) =
          (tr @ [Call_get_preset_voice v]) @ Call_infer
            \<lparr> ia_text = req_text req, ia_ref_codes = c, ia_ref_text = t,
              ia_temperature = req_temperature req, ia_max_chars = req_max_chars_chunk req \<rparr>
            # rest"
        using run_infer_trace by blast
      ultimately show ?thesis by simp
    qed
  qed
qed

lemma synthesize_try_lookup_raises:
  "get_preset_voice m v = Inl e \<Longrightarrow>
     fst (synthesize_try m env v req tr) =
       Inl (HTTPException 500 (''Synthesis failed: '' @ str_exn e))"
  by (simp add: synthesize_try_def synthesis_failed_def)

lemma synthesize_try_infers:
  assumes "get_preset_voice m v = Inr vd" and "vd_codes vd = Some c" and "vd_text vd = Some t"
  shows "synthesize_try m env v req tr =
    run_infer m env v req
      \<lparr> ia_text = req_text req, ia_ref_codes = c, ia_ref_text = t,
        ia_temperature = req_temperature req, ia_max_chars = req_max_chars_chunk req \<rparr>
      (tr @ [Call_get_preset_voice v])"
  using assms by (simp add: synthesize_try_def)

text \<open>
  C9. A request whose voice is the empty string resolves to the configured default
  voice, as a request without a voice does, and the handler and the endpoint answer
  both alike. With the model loaded, it is the default voice that the handler checks
  against the preset list and goes on with, never the empty string: if the default is
  not a preset, the answer is 400 and names the default; if it is, the preset looked up
  is the default's, a lookup that raises is answered by 500 with its message, and
  inference is called with the codes and the reference text of the default's preset.
  (\<^verbatim>\<open>None\<close> and the empty string are the falsy values of an optional string.)
\<close>

theorem empty_voice_is_default:
  "resolve_voice srv (req\<lparr>req_voice := Some []\<rparr>) = DEFAULT_VOICE srv \<and>
   resolve_voice srv (req\<lparr>req_voice := None\<rparr>) = DEFAULT_VOICE srv \<and>
   synthesize srv env (req\<lparr>req_voice := Some []\<rparr>) =
     synthesize srv env (req\<lparr>req_voice := None\<rparr>) \<and>
   post_api_tts srv env (Object (body\<lparr>body_voice := Value []\<rparr>)) =
     post_api_tts srv env (Object (body\<lparr>body_voice := Absent\<rparr>)) \<and>
   (\<forall>m. tts srv = Some m \<longrightarrow>
      (DEFAULT_VOICE srv \<notin> set (map snd (list_preset_voices m)) \<longrightarrow>
         synthesize srv env (req\<lparr>req_voice := Some []\<rparr>) =
           (Inl (HTTPException 400
                  (voice_not_found (DEFAULT_VOICE srv) (map snd (list_preset_voices m)))),
            [Call_list_preset_voices])) \<and>
      (DEFAULT_VOICE srv \<in> set (map snd (list_preset_voices m)) \<longrightarrow>
         (\<exists>rest. snd (synthesize srv env (req\<lparr>req_voice := Some []\<rparr>)) =
            Call_list_preset_voices # Call_get_preset_voice (DEFAULT_VOICE srv) # rest) \<and>
         (\<forall>e. get_preset_voice m (DEFAULT_VOICE srv) = Inl e \<longrightarrow>
            fst (synthesize srv env (req\<lparr>req_voice := Some []\<rparr>)) =
              Inl (HTTPException 500 (''Synthesis failed: '' @ str_exn e))) \<and>
         (\<forall>vd c t. get_preset_voice m (DEFAULT_VOICE srv) = Inr vd \<and>
              vd_codes vd = Some c \<and> vd_text vd = Some t \<longrightarrow>
            (\<exists>rest. snd (synthesize srv env (req\<lparr>req_voice := Some []\<rparr>)) =
               [Call_list_preset_voices, Call_get_preset_voice (DEFAULT_VOICE srv),
                Call_infer \<lparr> ia_text = req_text req, ia_ref_codes = c, ia_ref_text = t,
                             ia_temperature = req_temperature req,
                             ia_max_chars = req_max_chars_chunk req \<rparr>] @ rest) \<and>
            (\<forall>e. infer m \<lparr> ia_text = req_text req, ia_ref_codes = c, ia_ref_text = t,
                            ia_temperature = req_temperature req,
                            ia_max_chars = req_max_chars_chunk req \<rparr> = Inl e \<longrightarrow>
               fst (synthesize srv env (req\<lparr>req_voice := Some []\<rparr>)) =
                 Inl (HTTPException 500 (''Synthesis failed: '' @ str_exn e))))))"
proof -
  let ?req = "req\<lparr>req_voice := Some []\<rparr>"
  have r: "resolve_voice srv ?req = DEFAULT_VOICE srv"
    and r': "resolve_voice srv (req\<lparr>req_voice := None\<rparr>) = DEFAULT_VOICE srv"
    by (simp_all add: resolve_voice_def)
  have s: "synthesize srv env (q\<lparr>req_voice := Some []\<rparr>) =
      synthesize srv env (q\<lparr>req_voice := None\<rparr>)" for q
    by (simp add: synthesize_def resolve_voice_def synthesize_try_voice Let_def
        split: option.splits)
  have p: "post_api_tts srv env (Object (body\<lparr>body_voice := Value []\<rparr>)) =
      post_api_tts srv env (Object (body\<lparr>body_voice := Absent\<rparr>))"
  proof (cases "TTSRequest_validate (Object (body\<lparr>body_voice := Absent\<rparr>))")
    case (Inl e)
    then show ?thesis
      by (simp add: post_api_tts_def TTSRequest_validate_empty_voice)
  next
    case (Inr q)
    with TTSRequest_validate_absent_voice [OF Inr] s [of q] show ?thesis
      by (simp add: post_api_tts_def TTSRequest_validate_empty_voice)
  qed
  have loaded: "(DEFAULT_VOICE srv \<notin> set (map snd (list_preset_voices m)) \<longrightarrow>
         synthesize srv env ?req =
           (Inl (HTTPException 400
                  (voice_not_found (DEFAULT_VOICE srv) (map snd (list_preset_voices m)))),
            [Call_list_preset_voices])) \<and>
      (DEFAULT_VOICE srv \<in> set (map snd (list_preset_voices m)) \<longrightarrow>
         (\<exists>rest. snd (synthesize srv env ?req) =
            Call_list_preset_voices # Call_get_preset_voice (DEFAULT_VOICE srv) # rest) \<and>
         (\<forall>e. get_preset_voice m (DEFAULT_VOICE srv) = Inl e \<longrightarrow>
            fst (synthesize srv env ?req) =
              Inl (HTTPException 500 (''Synthesis failed: '' @ str_exn e))) \<and>
         (\<forall>vd c t. get_preset_voice m (DEFAULT_VOICE srv) = Inr vd \<and>
              vd_codes vd = Some c \<and> vd_text vd = Some t \<longrightarrow>
            (\<exists>rest. snd (synthesize srv env ?req) =
               [Call_list_preset_voices, Call_get_preset_voice (DEFAULT_VOICE srv),
                Call_infer \<lparr> ia_text = req_text req, ia_ref_codes = c, ia_ref_text = t,
                             ia_temperature = req_temperature req,
                             ia_max_chars = req_max_chars_chunk req \<rparr>] @ rest) \<and>
            (\<forall>e. infer m \<lparr> ia_text = req_text req, ia_ref_codes = c, ia_ref_text = t,
                            ia_temperature = req_temperature req,
                            ia_max_chars = req_max_chars_chunk req \<rparr> = Inl e \<longrightarrow>
               fst (synthesize srv env ?req) =
                 Inl (HTTPException 500 (''Synthesis failed: '' @ str_exn e)))))"
    if m: "tts srv = Some m" for m
  proof (cases "DEFAULT_VOICE srv \<in> set (map snd (list_preset_voices m))")
    case False
    with synthesize_loaded [OF m, of env ?req] r show ?thesis by simp
  next
    case True
    with synthesize_loaded [OF m, of env ?req] r
    have eq: "synthesize srv env ?req =
        synthesize_try m env (DEFAULT_VOICE srv) ?req [Call_list_preset_voices]"
      by simp
    have a: "\<exists>rest. snd (synthesize srv env ?req) =
        Call_list_preset_voices # Call_get_preset_voice (DEFAULT_VOICE srv) # rest"
      using synthesize_try_trace [of m env "DEFAULT_VOICE srv" ?req "[Call_list_preset_voices]"]
      by (simp add: eq)
    have b: "fst (synthesize srv env ?req) =
        Inl (HTTPException 500 (''Synthesis failed: '' @ str_exn e))"
      if "get_preset_voice m (DEFAULT_VOICE srv) = Inl e" for e
      using that by (simp add: eq synthesize_try_lookup_raises)
    have c: "(\<exists>rest. snd (synthesize srv env ?req) =
               [Call_list_preset_voices, Call_get_preset_voice (DEFAULT_VOICE srv),
                Call_infer \<lparr> ia_text = req_text req, ia_ref_codes = c, ia_ref_text = t,
                             ia_temperature = req_temperature req,
                             ia_max_chars = req_max_chars_chunk req \<rparr>] @ rest) \<and>
            (\<forall>e. infer m \<lparr> ia_text = req_text req, ia_ref_codes = c, ia_ref_text = t,
                            ia_temperature = req_temperature req,
                            ia_max_chars = req_max_chars_chunk req \<rparr> = Inl e \<longrightarrow>
               fst (synthesize srv env ?req) =
                 Inl (HTTPException 500 (''Synthesis failed: '' @ str_exn e)))"
      if "get_preset_voice m (DEFAULT_VOICE srv) = Inr vd" "vd_codes vd = Some c"
        "vd_text vd = Some t" for vd c t
      using synthesize_try_infers [OF that, of env ?req "[Call_list_preset_voices]"]
        run_infer_trace [of m env "DEFAULT_VOICE srv" ?req _
          "[Call_list_preset_voices, Call_get_preset_voice (DEFAULT_VOICE srv)]"]
      by (simp add: eq run_infer_raises)
    from True a b c show ?thesis by blast
  qed
  from r r' s [of req] p loaded show ?thesis by blast
qed

text \<open>
  On the example server the empty string is no preset, and the request with the empty
  voice is synthesised with the default voice "Doan". On the server whose presets
  include the empty identifier and whose default "Ghost" is no preset, the same request
  is refused, and the refusal names "Ghost".
\<close>

theorem empty_voice_is_default_witness:
  "tts (example_server (Some example_model)) = Some example_model \<and>
   [] \<notin> set (map snd (list_preset_voices example_model)) \<and>
   DEFAULT_VOICE (example_server (Some example_model)) = ''Doan'' \<and>
   (\<exists>rest. snd (synthesize (example_server (Some example_model)) example_env
                  (example_request ''xin chao'' (Some []))) =
      [Call_list_preset_voices, Call_get_preset_voice ''Doan'',
       Call_infer \<lparr> ia_text = ''xin chao'', ia_ref_codes = [3, 1, 4], ia_ref_text = ''xin chao'',
                    ia_temperature = 1, ia_max_chars = 256 \<rparr>] @ rest) \<and>
   fst (synthesize (example_server (Some example_model)) example_env
          (example_request ''xin chao'' (Some []))) =
     Inr \<lparr> sr_body = [82, 73, 70, 70], sr_media_type = ''audio/wav'',
           sr_content_disposition = ''attachment; filename=speech.wav'',
           sr_x_process_time = 1, sr_x_audio_duration = 0 \<rparr> \<and>
   tts ghost_server = Some blank_preset_model \<and>
   [] \<in> set (map snd (list_preset_voices blank_preset_model)) \<and>
   synthesize ghost_server example_env (example_request ''xin chao'' (Some [])) =
     (Inl (HTTPException 400
            (''Voice '' @ [CHR 0x27] @ ''Ghost'' @ [CHR 0x27] @ '' not found. Available: ['' @
             [CHR 0x27, CHR 0x27] @ '', '' @ [CHR 0x27] @ ''Doan'' @ [CHR 0x27] @ '', '' @
             [CHR 0x27] @ ''Vinh'' @ [CHR 0x27] @ '']'')),
      [Call_list_preset_voices])"
proof -
  let ?srv = "example_server (Some example_model)"
  let ?req = "example_request ''xin chao'' None"
  have q: "?req\<lparr>req_voice := Some []\<rparr> = example_request ''xin chao'' (Some [])"
    by (simp add: example_request_def)
  have a: "tts ?srv = Some example_model" and d: "DEFAULT_VOICE ?srv = ''Doan''"
    by (simp_all add: example_server_def)
  have b: "[] \<notin> set (map snd (list_preset_voices example_model))"
    and b': "DEFAULT_VOICE ?srv \<in> set (map snd (list_preset_voices example_model))"
    by (simp_all add: example_model_def example_server_def)
  have l: "get_preset_voice example_model (DEFAULT_VOICE ?srv) =
      Inr \<lparr> vd_codes = Some [3, 1, 4], vd_text = Some ''xin chao'' \<rparr>"
    by (simp add: example_model_def example_server_def)
  have lc: "get_preset_voice example_model (DEFAULT_VOICE ?srv) =
        Inr \<lparr> vd_codes = Some [3, 1, 4], vd_text = Some ''xin chao'' \<rparr> \<and>
      vd_codes \<lparr> vd_codes = Some [3, 1, 4], vd_text = Some ''xin chao'' \<rparr> = Some [3, 1, 4] \<and>
      vd_text \<lparr> vd_codes = Some [3, 1, 4], vd_text = Some ''xin chao'' \<rparr> = Some ''xin chao''"
    using l by simp
  note loaded = empty_voice_is_default [of ?srv ?req example_env "example_body [] 1",
      THEN conjunct2, THEN conjunct2, THEN conjunct2, THEN conjunct2, THEN spec, THEN mp, OF a]
  note known = loaded [THEN conjunct2, THEN mp, OF b']
  note c = known [THEN conjunct2, THEN conjunct2, THEN spec, THEN spec, THEN spec, THEN mp,
      OF lc, THEN conjunct1]
  from c
  have c': "\<exists>rest. snd (synthesize ?srv example_env (example_request ''xin chao'' (Some []))) =
      [Call_list_preset_voices, Call_get_preset_voice ''Doan'',
       Call_infer \<lparr> ia_text = ''xin chao'', ia_ref_codes = [3, 1, 4], ia_ref_text = ''xin chao'',
                    ia_temperature = 1, ia_max_chars = 256 \<rparr>] @ rest"
    unfolding q d by (simp add: example_request_def)
  have rnd: "py_round 1 3 = 1" "py_round (1 / 8000) 3 = 0"
    by code_simp+
  have e: "fst (synthesize ?srv example_env (example_request ''xin chao'' (Some []))) =
     Inr \<lparr> sr_body = [82, 73, 70, 70], sr_media_type = ''audio/wav'',
           sr_content_disposition = ''attachment; filename=speech.wav'',
           sr_x_process_time = 1, sr_x_audio_duration = 0 \<rparr>"
    by (simp add: synthesize_def synthesize_try_def run_infer_def stream_wav_def
        resolve_voice_def example_server_def example_model_def example_env_def
        example_request_def Let_def rnd)
  have g: "tts ghost_server = Some blank_preset_model"
    by (simp add: ghost_server_def example_server_def)
  have h: "[] \<in> set (map snd (list_preset_voices blank_preset_model))"
    and h': "DEFAULT_VOICE ghost_server \<notin> set (map snd (list_preset_voices blank_preset_model))"
    by (simp_all add: blank_preset_model_def example_model_def ghost_server_def
        example_server_def)
  have v: "voice_not_found (DEFAULT_VOICE ghost_server)
      (map snd (list_preset_voices blank_preset_model)) =
      ''Voice '' @ [CHR 0x27] @ ''Ghost'' @ [CHR 0x27] @ '' not found. Available: ['' @
             [CHR 0x27, CHR 0x27] @ '', '' @ [CHR 0x27] @ ''Doan'' @ [CHR 0x27] @ '', '' @
             [CHR 0x27] @ ''Vinh'' @ [CHR 0x27] @ '']''"
    by (simp add: voice_not_found_def repr_list_def repr_str_def repr_char_def isprintable_def
        blank_preset_model_def example_model_def ghost_server_def example_server_def Let_def)
  note ghost = empty_voice_is_default [of ghost_server ?req example_env "example_body [] 1",
      THEN conjunct2, THEN conjunct2, THEN conjunct2, THEN conjunct2, THEN spec, THEN mp, OF g,
      THEN conjunct1, THEN mp, OF h']
  from ghost
  have f: "synthesize ghost_server example_env (example_request ''xin chao'' (Some [])) =
     (Inl (HTTPException 400
            (''Voice '' @ [CHR 0x27] @ ''Ghost'' @ [CHR 0x27] @ '' not found. Available: ['' @
             [CHR 0x27, CHR 0x27] @ '', '' @ [CHR 0x27] @ ''Doan'' @ [CHR 0x27] @ '', '' @
             [CHR 0x27] @ ''Vinh'' @ [CHR 0x27] @ '']'')),
      [Call_list_preset_voices])"
    unfolding q v .
  from a b d c' e g h f show ?thesis
    by (intro conjI)
qed

subsection \<open>Unknown voices\<close>

lemma py_join_mentions:
  "x \<in> set xs \<Longrightarrow> \<exists>pre post. py_join sep xs = pre @ x @ post"
proof (induction sep xs rule: py_join.induct)
  case (1 sep)
  then show ?case by simp
next
  case (2 sep y)
  then have "py_join sep [y] = [] @ x @ []" by simp
  then show ?case by blast
next
  case (3 sep y z zs)
  show ?case
  proof (cases "x = y")
    case True
    then have "py_join sep (y # z # zs) = [] @ x @ (sep @ py_join sep (z # zs))" by simp
    then show ?thesis by blast
  next
    case False
    with 3 obtain pre post where "py_join sep (z # zs) = pre @ x @ post" by auto
    then have "py_join sep (y # z # zs) = (y @ sep @ pre) @ x @ post" by simp
    then show ?thesis by blast
  qed
qed

lemma voice_not_found_lists:
  assumes "v \<in> set ids"
  shows "\<exists>pre post. voice_not_found w ids = pre @ repr_str v @ post"
proof -
  from assms have "repr_str v \<in> set (map repr_str ids)" by simp
  then obtain pre post where "py_join '', '' (map repr_str ids) = pre @ repr_str v @ post"
    using py_join_mentions by blast
  then have "voice_not_found w ids =
      (''Voice '' @ [CHR 0x27] @ w @ [CHR 0x27] @ '' not found. Available: '' @ ''['' @ pre)
        @ repr_str v @ (post @ '']'')"
    by (simp add: voice_not_found_def repr_list_def)
  then show ?thesis by blast
qed

text \<open>
  C3. With the model loaded, a request whose resolved voice is not among the preset
  identifiers is answered by \<^verbatim>\<open>HTTPException(400)\<close>; the detail is the
  "not found" message followed by the list of available identifiers, in which every
  identifier occurs as Python prints it; and the handler's record of calls holds no
  call of the inference function.
\<close>

theorem unknown_voice_rejected:
  assumes "tts srv = Some m"
    and "resolve_voice srv req \<notin> set (map snd (list_preset_voices m))"
  shows "fst (synthesize srv env req) =
           Inl (HTTPException 400
                  (voice_not_found (resolve_voice srv req) (map snd (list_preset_voices m)))) \<and>
         infer_calls (snd (synthesize srv env req)) = 0 \<and>
         (\<forall>v \<in> set (map snd (list_preset_voices m)).
            \<exists>pre post. voice_not_found (resolve_voice srv req) (map snd (list_preset_voices m))
              = pre @ repr_str v @ post)"
  using assms voice_not_found_lists
  by (simp add: synthesize_def Let_def infer_calls_def)

text \<open>The default server, asked for a voice it does not have.\<close>

theorem unknown_voice_rejected_witness:
  "tts (example_server (Some example_model)) = Some example_model \<and>
   resolve_voice (example_server (Some example_model)) (example_request ''hello'' (Some ''Nobody''))
     \<notin> set (map snd (list_preset_voices example_model)) \<and>
   fst (synthesize (example_server (Some example_model)) example_env
          (example_request ''hello'' (Some ''Nobody''))) =
     Inl (HTTPException 400
           (''Voice '' @ [CHR 0x27] @ ''Nobody'' @ [CHR 0x27] @ '' not found. Available: ['' @
            [CHR 0x27] @ ''Doan'' @ [CHR 0x27] @ '', '' @ [CHR 0x27] @ ''Vinh'' @ [CHR 0x27] @ '']'')) \<and>
   infer_calls (snd (synthesize (example_server (Some example_model)) example_env
          (example_request ''hello'' (Some ''Nobody'')))) = 0"
proof -
  have a: "tts (example_server (Some example_model)) = Some example_model"
    by (simp add: example_server_def)
  have b: "resolve_voice (example_server (Some example_model))
      (example_request ''hello'' (Some ''Nobody'')) \<notin> set (map snd (list_preset_voices example_model))"
    by (simp add: resolve_voice_def example_request_def example_model_def)
  have c: "voice_not_found (resolve_voice (example_server (Some example_model))
      (example_request ''hello'' (Some ''Nobody''))) (map snd (list_preset_voices example_model)) =
     ''Voice '' @ [CHR 0x27] @ ''Nobody'' @ [CHR 0x27] @ '' not found. Available: ['' @
            [CHR 0x27] @ ''Doan'' @ [CHR 0x27] @ '', '' @ [CHR 0x27] @ ''Vinh'' @ [CHR 0x27] @ '']''"
    by (simp add: resolve_voice_def example_request_def example_model_def voice_not_found_def
        repr_list_def repr_str_def repr_char_def isprintable_def Let_def)
  show ?thesis
    using unknown_voice_rejected [OF a b, of example_env] a b c by simp
qed

subsection \<open>Field constraints of a synthesis request\<close>

lemma synthesis_failed_not_validation:
  "fst (synthesis_failed e tr) \<noteq> Inl (RequestValidationError errs)"
  by (simp add: synthesis_failed_def)









subsection \<open>Failing inference\<close>

text \<open>
  C6. With the model loaded, a known voice and a preset whose lookup gives the codes
  and the reference text (so that inference is called, with the arguments \<open>args\<close>):
  if inference returns \<^verbatim>\<open>None\<close> or an empty waveform, the request fails with status
  500; if inference raises \<open>e\<close>, the request fails with status 500 and the detail
  ends with the message of \<open>e\<close>.
\<close>

theorem inference_failure_is_500:
  assumes "tts srv = Some m"
    and "resolve_voice srv req \<in> set (map snd (list_preset_voices m))"
    and "get_preset_voice m (resolve_voice srv req) = Inr vd"
    and "vd_codes vd = Some c" and "vd_text vd = Some t"
    and "args = \<lparr> ia_text = req_text req, ia_ref_codes = c, ia_ref_text = t,
                  ia_temperature = req_temperature req, ia_max_chars = req_max_chars_chunk req \<rparr>"
  shows "(infer m args = Inr None \<or> infer m args = Inr (Some []) \<longrightarrow>
            fst (synthesize srv env req) = Inl (HTTPException 500 ''Failed to generate audio'')) \<and>
         (\<forall>e. infer m args = Inl e \<longrightarrow>
            fst (synthesize srv env req) =
              Inl (HTTPException 500 (''Synthesis failed: '' @ str_exn e)))"
  using assms
  by (simp add: synthesize_def Let_def synthesize_try_def run_infer_def synthesis_failed_def)

text \<open>The three failures at the example model, which answers by the text it is given.\<close>

theorem inference_failure_is_500_witness:
  "tts (example_server (Some example_model)) = Some example_model \<and>
   infer example_model
     \<lparr> ia_text = ''none'', ia_ref_codes = [3, 1, 4], ia_ref_text = ''xin chao'',
       ia_temperature = 1, ia_max_chars = 256 \<rparr> = Inr None \<and>
   fst (synthesize (example_server (Some example_model)) example_env
          (example_request ''none'' None)) =
     Inl (HTTPException 500 ''Failed to generate audio'') \<and>
   infer example_model
     \<lparr> ia_text = ''empty'', ia_ref_codes = [3, 1, 4], ia_ref_text = ''xin chao'',
       ia_temperature = 1, ia_max_chars = 256 \<rparr> = Inr (Some []) \<and>
   fst (synthesize (example_server (Some example_model)) example_env
          (example_request ''empty'' None)) =
     Inl (HTTPException 500 ''Failed to generate audio'') \<and>
   infer example_model
     \<lparr> ia_text = ''boom'', ia_ref_codes = [3, 1, 4], ia_ref_text = ''xin chao'',
       ia_temperature = 1, ia_max_chars = 256 \<rparr> = Inl (Exception ''CUDA out of memory'') \<and>
   fst (synthesize (example_server (Some example_model)) example_env
          (example_request ''boom'' None)) =
     Inl (HTTPException 500 ''Synthesis failed: CUDA out of memory'')"
proof -
  let ?srv = "example_server (Some example_model)"
  let ?vd = "\<lparr> vd_codes = Some [3, 1, 4], vd_text = Some ''xin chao'' \<rparr>"
  have a: "tts ?srv = Some example_model"
    by (simp add: example_server_def)
  have b: "resolve_voice ?srv (example_request x None) \<in> set (map snd (list_preset_voices example_model))" for x
    by (simp add: resolve_voice_def example_request_def example_server_def example_model_def)
  have c: "get_preset_voice example_model (resolve_voice ?srv (example_request x None)) = Inr ?vd" for x
    by (simp add: resolve_voice_def example_request_def example_server_def example_model_def)
  have d: "vd_codes ?vd = Some [3, 1, 4]" and e: "vd_text ?vd = Some ''xin chao''"
    by simp_all
  have f: "\<lparr> ia_text = x, ia_ref_codes = [3, 1, 4], ia_ref_text = ''xin chao'',
              ia_temperature = 1, ia_max_chars = 256 \<rparr> =
           \<lparr> ia_text = req_text (example_request x None), ia_ref_codes = [3, 1, 4],
             ia_ref_text = ''xin chao'', ia_temperature = req_temperature (example_request x None),
             ia_max_chars = req_max_chars_chunk (example_request x None) \<rparr>" for x
    by (simp add: example_request_def)
  note th = inference_failure_is_500 [OF a b c d e f, of _ example_env]
  have i1: "infer example_model
     \<lparr> ia_text = ''none'', ia_ref_codes = [3, 1, 4], ia_ref_text = ''xin chao'',
       ia_temperature = 1, ia_max_chars = 256 \<rparr> = Inr None"
    by (simp add: example_model_def)
  have i2: "infer example_model
     \<lparr> ia_text = ''empty'', ia_ref_codes = [3, 1, 4], ia_ref_text = ''xin chao'',
       ia_temperature = 1, ia_max_chars = 256 \<rparr> = Inr (Some [])"
    by (simp add: example_model_def)
  have i3: "infer example_model
     \<lparr> ia_text = ''boom'', ia_ref_codes = [3, 1, 4], ia_ref_text = ''xin chao'',
       ia_temperature = 1, ia_max_chars = 256 \<rparr> = Inl (Exception ''CUDA out of memory'')"
    by (simp add: example_model_def)
  show ?thesis
    using a i1 i2 i3 th [of "''none''"] th [of "''empty''"] th [of "''boom''"] by simp
qed

subsection \<open>The list of voices\<close>

lemma voices_loop_eq:
  "voices_loop m ps acc =
     acc @ map (\<lambda>p. \<lparr> vi_id = snd p, vi_description = fst p, vi_ref_text = ref_text_of m (snd p) \<rparr>) ps"
  by (induction m ps acc rule: voices_loop.induct) simp_all

text \<open>
  C8. With the model loaded, \<^verbatim>\<open>GET /api/voices\<close> succeeds; the identifiers of its
  entries are the preset identifiers, one entry for each preset and in the order of the
  preset table, with the descriptions alongside; and an entry whose metadata
  lookup raises has the empty reference text.
\<close>

theorem list_voices_complete:
  assumes "tts srv = Some m"
  shows "\<exists>voices. list_voices srv = Inr voices \<and>
           map vi_id voices = map snd (list_preset_voices m) \<and>
           map vi_description voices = map fst (list_preset_voices m) \<and>
           (\<forall>v \<in> set voices. isl (get_preset_voice m (vi_id v)) \<longrightarrow> vi_ref_text v = [])"
  using assms
  by (auto simp add: list_voices_def voices_loop_eq ref_text_of_def comp_def split: sum.splits)

text \<open>The example server: the lookup of the second preset raises, and its entry is there
  with an empty reference text.\<close>

theorem list_voices_complete_witness:
  "tts (example_server (Some example_model)) = Some example_model \<and>
   isl (get_preset_voice example_model ''Vinh'') \<and>
   list_voices (example_server (Some example_model)) =
     Inr [\<lparr> vi_id = ''Doan'', vi_description = ''Doan (female, north)'', vi_ref_text = ''xin chao'' \<rparr>,
          \<lparr> vi_id = ''Vinh'', vi_description = ''Vinh (male, south)'', vi_ref_text = [] \<rparr>] \<and>
   (\<exists>voices. list_voices (example_server (Some example_model)) = Inr voices \<and>
      map vi_id voices = [''Doan'', ''Vinh''])"
proof -
  have a: "tts (example_server (Some example_model)) = Some example_model"
    by (simp add: example_server_def)
  have b: "isl (get_preset_voice example_model ''Vinh'')"
    by (simp add: example_model_def)
  have c: "list_voices (example_server (Some example_model)) =
     Inr [\<lparr> vi_id = ''Doan'', vi_description = ''Doan (female, north)'', vi_ref_text = ''xin chao'' \<rparr>,
          \<lparr> vi_id = ''Vinh'', vi_description = ''Vinh (male, south)'', vi_ref_text = [] \<rparr>]"
    by (simp add: list_voices_def example_server_def example_model_def ref_text_of_def)
  have d: "map snd (list_preset_voices example_model) = [''Doan'', ''Vinh'']"
    by (simp add: example_model_def)
  from list_voices_complete [OF a] obtain voices
    where v: "list_voices (example_server (Some example_model)) = Inr voices"
      and "map vi_id voices = map snd (list_preset_voices example_model)"
    by blast
  then have "map vi_id voices = [''Doan'', ''Vinh'']"
    using d by simp
  with v have "\<exists>voices. list_voices (example_server (Some example_model)) = Inr voices \<and>
      map vi_id voices = [''Doan'', ''Vinh'']"
    by (intro exI [of _ voices]) simp
  with a b c show ?thesis
    by simp
qed

subsection \<open>The full text of a transcript\<close>

lemma collect_segments_Inr:
  "collect_segments g rs ft = Inr (rs', ft') \<Longrightarrow>
     rs' = rs @ map (\<lambda>seg. \<lparr> rs_start = py_round (seg_start seg) 2,
                             rs_end = py_round (seg_end seg) 2,
                             rs_text = py_strip (seg_text seg) \<rparr>) (yielded g) \<and>
     ft' = ft @ map (\<lambda>seg. py_strip (seg_text seg)) (yielded g)"
  by (induction g rs ft rule: collect_segments.induct) auto

lemma do_transcribe_Inr:
  assumes "fst (do_transcribe m p language task) = Inr (rs, ft, info)"
  shows "\<exists>a g. transcribe m a = Inr (g, info) \<and>
           rs = map (\<lambda>seg. \<lparr> rs_start = py_round (seg_start seg) 2,
                               rs_end = py_round (seg_end seg) 2,
                               rs_text = py_strip (seg_text seg) \<rparr>) (yielded g) \<and>
           ft = map (\<lambda>seg. py_strip (seg_text seg)) (yielded g)"
proof -
  let ?call = "\<lparr> ta_audio = p,
                 ta_language = (if language \<noteq> Some ''auto'' then language else None),
                 ta_task = task, ta_vad_filter = True,
                 ta_vad_parameters = [(''min_silence_duration_ms'', 500)] \<rparr>"
  from assms obtain g where g: "transcribe m ?call = Inr (g, info)"
    and c: "collect_segments g [] [] = Inr (rs, ft)"
    by (auto simp add: do_transcribe_def Let_def split: sum.splits prod.splits)
  from collect_segments_Inr [OF c] g show ?thesis
    by (intro exI [of _ ?call] exI [of _ g]) simp
qed

lemma transcribe_try_Inr:
  assumes "fst (transcribe_try m env fs p language task) = Inr resp"
  shows "\<exists>rs ft info. fst (do_transcribe m p language task) = Inr (rs, ft, info) \<and>
           tr_text resp = py_join '' '' ft \<and> tr_segments resp = rs"
proof (cases "do_transcribe m p language task")
  case (Pair r calls)
  show ?thesis
  proof (cases r)
    case (Inl e)
    with assms Pair show ?thesis by (simp add: transcribe_try_def)
  next
    case (Inr t)
    obtain rs ft info where "t = (rs, ft, info)" by (cases t) auto
    with assms Pair Inr show ?thesis by (auto simp add: transcribe_try_def Let_def)
  qed
qed

lemma transcribe_api_Inr:
  assumes "fst (transcribe_api m env fs upload language task) = Inr resp"
  shows "\<exists>fs' p. fst (transcribe_try m env fs' p language task) = Inr resp"
  using assms
  by (auto simp add: transcribe_api_def Let_def split: sum.splits option.splits)

text \<open>
  A successful answer comes from one call of the model: its segments are the segments
  the model yielded, with rounded times and stripped texts.
\<close>

lemma post_api_transcribe_Inr:
  assumes "fst (post_api_transcribe m env fs upload language task) = Inr resp"
  shows "\<exists>a g info. transcribe m a = Inr (g, info) \<and>
           tr_segments resp = map (\<lambda>seg. \<lparr> rs_start = py_round (seg_start seg) 2,
                               rs_end = py_round (seg_end seg) 2,
                               rs_text = py_strip (seg_text seg) \<rparr>) (yielded g) \<and>
           tr_text resp = py_join '' '' (map (\<lambda>seg. py_strip (seg_text seg)) (yielded g))"
proof (cases upload)
  case None
  with assms show ?thesis by (simp add: post_api_transcribe_def)
next
  case (Some f)
  with assms obtain l t where
    "fst (transcribe_api m env fs f l t) = Inr resp"
    by (auto simp add: post_api_transcribe_def)
  then obtain fs' p where "fst (transcribe_try m env fs' p l t) = Inr resp"
    using transcribe_api_Inr by blast
  then obtain rs ft info where d: "fst (do_transcribe m p l t) = Inr (rs, ft, info)"
    and r: "tr_text resp = py_join '' '' ft" "tr_segments resp = rs"
    using transcribe_try_Inr by blast
  from do_transcribe_Inr [OF d] r show ?thesis by blast
qed

text \<open>
  C4. In every successful answer of \<^verbatim>\<open>POST /api/transcribe\<close> the full text is the
  texts of the returned segments, which are the stripped texts of the model's segments,
  joined in their order with one space between neighbours.
\<close>

theorem full_text_is_joined_segments:
  assumes "fst (post_api_transcribe m env fs upload language task) = Inr resp"
  shows "tr_text resp = py_join '' '' (map rs_text (tr_segments resp))"
proof -
  from post_api_transcribe_Inr [OF assms] obtain g :: "Segment generator" where
    "tr_segments resp = map (\<lambda>seg. \<lparr> rs_start = py_round (seg_start seg) 2,
                               rs_end = py_round (seg_end seg) 2,
                               rs_text = py_strip (seg_text seg) \<rparr>) (yielded g)"
    "tr_text resp = py_join '' '' (map (\<lambda>seg. py_strip (seg_text seg)) (yielded g))"
    by blast
  then show ?thesis by (simp add: comp_def)
qed

lemma example_rounding:
  "py_round 0 2 = 0" "py_round 1 2 = 1" "py_round (5 / 2) 2 = 5 / 2"
  "py_round (617 / 500) 2 = 123 / 100" "py_round (19753 / 20000) 3 = 247 / 250"
  by code_simp+

lemma example_run:
  "post_api_transcribe example_whisper example_stt_env Map.empty (Some example_upload) None None =
     (Inr \<lparr> tr_text = ''xin chao the gioi'',
            tr_segments =
              [\<lparr> rs_start = 0, rs_end = 123 / 100, rs_text = ''xin chao'' \<rparr>,
               \<lparr> rs_start = 123 / 100, rs_end = 5 / 2, rs_text = ''the gioi'' \<rparr>],
            tr_language = ''vi'', tr_language_probability = 988 / 1000,
            tr_duration = 5 / 2, tr_process_time = 1 \<rparr>,
      Map.empty,
      [Call_transcribe
         \<lparr> ta_audio = ''/tmp/tmpab12cd.mp3'', ta_language = Some ''vi'',
           ta_task = Some ''transcribe'', ta_vad_filter = True,
           ta_vad_parameters = [(''min_silence_duration_ms'', 500)] \<rparr>,
       Log_info_STT ''vi'' (5 / 2) 1 2])"
  by (simp add: post_api_transcribe_def transcribe_api_def transcribe_try_def do_transcribe_def
      example_whisper_def example_stt_env_def example_upload_def
      example_segments_def splitext_def example_rounding py_strip_def
      isspace_def Let_def)

text \<open>
  The example request succeeds with two segments and the text made of both.
\<close>

theorem full_text_is_joined_segments_witness:
  "\<exists>resp. fst (post_api_transcribe example_whisper example_stt_env Map.empty
                 (Some example_upload) None None) = Inr resp \<and>
      tr_segments resp =
        [\<lparr> rs_start = 0, rs_end = 123 / 100, rs_text = ''xin chao'' \<rparr>,
         \<lparr> rs_start = 123 / 100, rs_end = 5 / 2, rs_text = ''the gioi'' \<rparr>] \<and>
      tr_text resp = ''xin chao the gioi''"
proof -
  let ?resp = "\<lparr> tr_text = ''xin chao the gioi'',
            tr_segments =
              [\<lparr> rs_start = 0, rs_end = 123 / 100, rs_text = ''xin chao'' \<rparr>,
               \<lparr> rs_start = 123 / 100, rs_end = 5 / 2, rs_text = ''the gioi'' \<rparr>],
            tr_language = ''vi'', tr_language_probability = 988 / 1000,
            tr_duration = 5 / 2, tr_process_time = 1 \<rparr>"
  have a: "fst (post_api_transcribe example_whisper example_stt_env Map.empty
                 (Some example_upload) None None) = Inr ?resp"
    by (simp add: example_run)
  from full_text_is_joined_segments [OF a]
  have "tr_text ?resp = ''xin chao the gioi''" by simp
  with a show ?thesis by (intro exI [of _ ?resp]) simp
qed

subsection \<open>Order of the returned segments\<close>

text \<open>Rounding never reverses an order.\<close>

lemma round_half_even_lower: "\<lfloor>s\<rfloor> \<le> round_half_even s"
  by (simp add: round_half_even_def Let_def)

lemma round_half_even_upper: "round_half_even s \<le> \<lfloor>s\<rfloor> + 1"
  by (simp add: round_half_even_def Let_def)

lemma round_half_even_mono:
  assumes "s \<le> t"
  shows "round_half_even s \<le> round_half_even t"
proof (cases "\<lfloor>s\<rfloor> = \<lfloor>t\<rfloor>")
  case True
  from assms have "s - of_int \<lfloor>t\<rfloor> \<le> t - of_int \<lfloor>t\<rfloor>" by simp
  with True show ?thesis
    by (auto simp add: round_half_even_def Let_def)
next
  case False
  with assms have "\<lfloor>s\<rfloor> < \<lfloor>t\<rfloor>"
    using floor_mono [of s t] by linarith
  then have "round_half_even s \<le> \<lfloor>t\<rfloor>"
    using round_half_even_upper [of s] by linarith
  then show ?thesis
    using round_half_even_lower [of t] by linarith
qed

lemma py_round_mono: "x \<le> y \<Longrightarrow> py_round x n \<le> py_round y n"
  unfolding py_round_def
  by (intro divide_right_mono) (simp_all add: round_half_even_mono mult_right_mono)

lemma sorted_rounded_starts:
  "sorted (map seg_start ys) \<Longrightarrow> sorted (map (\<lambda>seg. py_round (seg_start seg) 2) ys)"
  by (induction ys) (auto simp add: py_round_mono)

text \<open>
  C7. If every segment sequence the model produces is ordered by start time and each
  of its segments starts no later than it ends, then in every successful answer of
  \<^verbatim>\<open>POST /api/transcribe\<close> the returned segments are ordered by start time and each
  starts no later than it ends: rounding to two decimals keeps both.
\<close>

theorem segments_ordered:
  assumes model: "\<And>a g info. transcribe m a = Inr (g, info) \<Longrightarrow>
      sorted (map seg_start (yielded g)) \<and> (\<forall>seg \<in> set (yielded g). seg_start seg \<le> seg_end seg)"
    and ok: "fst (post_api_transcribe m env fs upload language task) = Inr resp"
  shows "sorted (map rs_start (tr_segments resp)) \<and>
         (\<forall>r \<in> set (tr_segments resp). rs_start r \<le> rs_end r)"
proof -
  from post_api_transcribe_Inr [OF ok] obtain a g info where
    g: "transcribe m a = Inr (g, info)"
    and segs: "tr_segments resp =
      map (\<lambda>seg. \<lparr> rs_start = py_round (seg_start seg) 2, rs_end = py_round (seg_end seg) 2,
                    rs_text = py_strip (seg_text seg) \<rparr>) (yielded g)"
    by blast
  from model [OF g] have s: "sorted (map seg_start (yielded g))"
    and b: "\<forall>seg \<in> set (yielded g). seg_start seg \<le> seg_end seg"
    by simp_all
  from s have "sorted (map rs_start (tr_segments resp))"
    using sorted_rounded_starts [of "yielded g"] by (simp add: segs comp_def)
  moreover from b have "\<forall>r \<in> set (tr_segments resp). rs_start r \<le> rs_end r"
    by (auto simp add: segs py_round_mono)
  ultimately show ?thesis by simp
qed

text \<open>
  The example model is ordered in this sense, and so is the answer to the example
  request.
\<close>

theorem segments_ordered_witness:
  "\<exists>resp. fst (post_api_transcribe example_whisper example_stt_env Map.empty
                 (Some example_upload) None None) = Inr resp \<and>
      map rs_start (tr_segments resp) = [0, 123 / 100] \<and>
      map rs_end (tr_segments resp) = [123 / 100, 5 / 2] \<and>
      sorted (map rs_start (tr_segments resp)) \<and>
      list_all (\<lambda>r. rs_start r \<le> rs_end r) (tr_segments resp)"
proof -
  let ?resp = "\<lparr> tr_text = ''xin chao the gioi'',
            tr_segments =
              [\<lparr> rs_start = 0, rs_end = 123 / 100, rs_text = ''xin chao'' \<rparr>,
               \<lparr> rs_start = 123 / 100, rs_end = 5 / 2, rs_text = ''the gioi'' \<rparr>],
            tr_language = ''vi'', tr_language_probability = 988 / 1000,
            tr_duration = 5 / 2, tr_process_time = 1 \<rparr>"
  have a: "fst (post_api_transcribe example_whisper example_stt_env Map.empty
                 (Some example_upload) None None) = Inr ?resp"
    by (simp add: example_run)
  have m: "sorted (map seg_start (yielded g)) \<and>
      (\<forall>seg \<in> set (yielded g). seg_start seg \<le> seg_end seg)"
    if "transcribe example_whisper a = Inr (g, info)" for a g info
    using that by (auto simp add: example_whisper_def example_segments_def split: if_splits)
  from segments_ordered [of example_whisper, OF m a]
  have "sorted (map rs_start (tr_segments ?resp)) \<and>
      list_all (\<lambda>r. rs_start r \<le> rs_end r) (tr_segments ?resp)"
    by (simp add: list_all_iff)
  with a show ?thesis by (intro exI [of _ ?resp]) simp
qed

subsection \<open>The language handed to the model\<close>

text \<open>What the handler does once the upload is on disk: one call of the model, and the
  answer built from what that call gives.\<close>

lemma transcribe_try_eq:
  assumes "call = \<lparr> ta_audio = p,
                    ta_language = (if language \<noteq> Some ''auto'' then language else None),
                    ta_task = task, ta_vad_filter = True,
                    ta_vad_parameters = [(''min_silence_duration_ms'', 500)] \<rparr>"
  shows "(\<exists>ev. snd (snd (transcribe_try m env fs p language task)) = [Call_transcribe call, ev] \<and>
            (\<forall>a. ev \<noteq> Call_transcribe a)) \<and>
    fst (transcribe_try m env fs p language task) =
      (case transcribe m call of
         Inl e \<Rightarrow> Inl (HTTPException 500 (str_exn e))
       | Inr (g, info) \<Rightarrow>
           (case collect_segments g [] [] of
              Inl e \<Rightarrow> Inl (HTTPException 500 (str_exn e))
            | Inr (rs, ft) \<Rightarrow>
                Inr \<lparr> tr_text = py_join '' '' ft,
                      tr_segments = rs,
                      tr_language = ti_language info,
                      tr_language_probability = py_round (ti_language_probability info) 3,
                      tr_duration = py_round (ti_duration info) 2,
                      tr_process_time = py_round (se_time_end env - se_time_start env) 2 \<rparr>))"
  unfolding assms
  by (simp add: transcribe_try_def do_transcribe_def Let_def split: sum.splits prod.splits)

lemma transcribe_api_written:
  assumes "se_NamedTemporaryFile env
             (snd (splitext (case uf_filename upload of
                               None \<Rightarrow> ''audio.wav''
                             | Some n \<Rightarrow> if n = [] then ''audio.wav'' else n))) = Inr p"
    and "uf_read upload = Inr content" and "se_write env content = None"
  shows "transcribe_api m env fs upload language task =
    transcribe_try m env (fs(p \<mapsto> content)) p language task"
  using assms by (simp add: transcribe_api_def)

text \<open>
  C10 (as amended). Once the upload is written to the temporary file \<open>p\<close>, a request
  to \<^verbatim>\<open>POST /api/transcribe\<close> calls the model exactly once, with the arguments
  \<open>call\<close>: the file \<open>p\<close>; the language "vi" when the field is absent or empty, none
  (the model detects the language) when it is "auto", and the supplied string itself
  otherwise; the task likewise with its default "transcribe". The answer is built from
  what the model gives at these arguments. A request without a language, and one with
  an empty language, are handled exactly as one with the language "vi".
\<close>

theorem language_default_and_auto:
  assumes "se_NamedTemporaryFile env
             (snd (splitext (case uf_filename upload of
                               None \<Rightarrow> ''audio.wav''
                             | Some n \<Rightarrow> if n = [] then ''audio.wav'' else n))) = Inr p"
    and "uf_read upload = Inr content" and "se_write env content = None"
    and "call =
      \<lparr> ta_audio = p,
        ta_language =
          (case language of
             None \<Rightarrow> Some ''vi''
           | Some l \<Rightarrow> if l = [] then Some ''vi'' else if l = ''auto'' then None else Some l),
        ta_task =
          (case task of
             None \<Rightarrow> Some ''transcribe''
           | Some t \<Rightarrow> if t = [] then Some ''transcribe'' else Some t),
        ta_vad_filter = True,
        ta_vad_parameters = [(''min_silence_duration_ms'', 500)] \<rparr>"
  shows "(\<exists>ev. snd (snd (post_api_transcribe m env fs (Some upload) language task)) =
             [Call_transcribe call, ev] \<and> (\<forall>a. ev \<noteq> Call_transcribe a)) \<and>
    fst (post_api_transcribe m env fs (Some upload) language task) =
      (case transcribe m call of
         Inl e \<Rightarrow> Inl (HTTPException 500 (str_exn e))
       | Inr (g, info) \<Rightarrow>
           (case collect_segments g [] [] of
              Inl e \<Rightarrow> Inl (HTTPException 500 (str_exn e))
            | Inr (rs, ft) \<Rightarrow>
                Inr \<lparr> tr_text = py_join '' '' ft,
                      tr_segments = rs,
                      tr_language = ti_language info,
                      tr_language_probability = py_round (ti_language_probability info) 3,
                      tr_duration = py_round (ti_duration info) 2,
                      tr_process_time = py_round (se_time_end env - se_time_start env) 2 \<rparr>)) \<and>
    post_api_transcribe m env fs (Some upload) None task =
      post_api_transcribe m env fs (Some upload) (Some ''vi'') task \<and>
    post_api_transcribe m env fs (Some upload) (Some []) task =
      post_api_transcribe m env fs (Some upload) (Some ''vi'') task"
proof -
  let ?l = "case language of None \<Rightarrow> Some ''vi'' | Some l \<Rightarrow> if l = [] then Some ''vi'' else Some l"
  let ?t = "case task of
              None \<Rightarrow> Some ''transcribe''
            | Some t \<Rightarrow> if t = [] then Some ''transcribe'' else Some t"
  have eq: "post_api_transcribe m env fs (Some upload) language task =
      transcribe_try m env (fs(p \<mapsto> content)) p ?l ?t"
    using transcribe_api_written [OF assms(1-3)] by (simp add: post_api_transcribe_def)
  have c: "call = \<lparr> ta_audio = p,
                    ta_language = (if ?l \<noteq> Some ''auto'' then ?l else None),
                    ta_task = ?t, ta_vad_filter = True,
                    ta_vad_parameters = [(''min_silence_duration_ms'', 500)] \<rparr>"
    unfolding assms(4) by (simp split: option.splits)
  have d: "post_api_transcribe m env fs (Some upload) None task =
      post_api_transcribe m env fs (Some upload) (Some ''vi'') task"
    "post_api_transcribe m env fs (Some upload) (Some []) task =
      post_api_transcribe m env fs (Some upload) (Some ''vi'') task"
    by (simp_all add: post_api_transcribe_def)
  from transcribe_try_eq [OF c, of m env "fs(p \<mapsto> content)"] d show ?thesis
    unfolding eq by simp
qed

lemma example_temporary_file:
  "se_NamedTemporaryFile example_stt_env
     (snd (splitext (case uf_filename example_upload of
                       None \<Rightarrow> ''audio.wav''
                     | Some n \<Rightarrow> if n = [] then ''audio.wav'' else n))) = Inr ''/tmp/tmpab12cd.mp3''"
  "uf_read example_upload = Inr [73, 68, 51]"
  "se_write example_stt_env [73, 68, 51] = None"
  by (simp_all add: example_stt_env_def example_upload_def splitext_def)

lemma example_answer:
  "(case transcribe example_whisper
           \<lparr> ta_audio = p, ta_language = l, ta_task = Some ''transcribe'', ta_vad_filter = True,
             ta_vad_parameters = [(''min_silence_duration_ms'', 500)] \<rparr> of
      Inl e \<Rightarrow> Inl (HTTPException 500 (str_exn e))
    | Inr (g, info) \<Rightarrow>
        (case collect_segments g [] [] of
           Inl e \<Rightarrow> Inl (HTTPException 500 (str_exn e))
         | Inr (rs, ft) \<Rightarrow>
             Inr \<lparr> tr_text = py_join '' '' ft,
                   tr_segments = rs,
                   tr_language = ti_language info,
                   tr_language_probability = py_round (ti_language_probability info) 3,
                   tr_duration = py_round (ti_duration info) 2,
                   tr_process_time =
                     py_round (se_time_end example_stt_env - se_time_start example_stt_env) 2 \<rparr>)) =
   Inr \<lparr> tr_text = ''xin chao the gioi'',
         tr_segments =
           [\<lparr> rs_start = 0, rs_end = 123 / 100, rs_text = ''xin chao'' \<rparr>,
            \<lparr> rs_start = 123 / 100, rs_end = 5 / 2, rs_text = ''the gioi'' \<rparr>],
         tr_language = (case l of None \<Rightarrow> ''ja'' | Some x \<Rightarrow> x),
         tr_language_probability = 988 / 1000,
         tr_duration = 5 / 2, tr_process_time = 1 \<rparr>"
  by (simp add: example_whisper_def example_stt_env_def example_segments_def example_rounding
      py_strip_def isspace_def Let_def)

text \<open>
  The example request without a language, with "auto" and with "en": the model
  reports the language it was given, and "ja" when it was given none.
\<close>

theorem language_default_and_auto_witness:
  "(\<exists>ev. snd (snd (post_api_transcribe example_whisper example_stt_env Map.empty
                    (Some example_upload) None None)) =
      [Call_transcribe
         \<lparr> ta_audio = ''/tmp/tmpab12cd.mp3'', ta_language = Some ''vi'',
           ta_task = Some ''transcribe'', ta_vad_filter = True,
           ta_vad_parameters = [(''min_silence_duration_ms'', 500)] \<rparr>, ev]) \<and>
   (\<exists>resp. fst (post_api_transcribe example_whisper example_stt_env Map.empty
                  (Some example_upload) None None) = Inr resp \<and> tr_language resp = ''vi'') \<and>
   (\<exists>ev. snd (snd (post_api_transcribe example_whisper example_stt_env Map.empty
                    (Some example_upload) (Some ''auto'') None)) =
      [Call_transcribe
         \<lparr> ta_audio = ''/tmp/tmpab12cd.mp3'', ta_language = None,
           ta_task = Some ''transcribe'', ta_vad_filter = True,
           ta_vad_parameters = [(''min_silence_duration_ms'', 500)] \<rparr>, ev]) \<and>
   (\<exists>resp. fst (post_api_transcribe example_whisper example_stt_env Map.empty
                  (Some example_upload) (Some ''auto'') None) = Inr resp \<and>
           tr_language resp = ''ja'') \<and>
   (\<exists>ev. snd (snd (post_api_transcribe example_whisper example_stt_env Map.empty
                    (Some example_upload) (Some ''en'') None)) =
      [Call_transcribe
         \<lparr> ta_audio = ''/tmp/tmpab12cd.mp3'', ta_language = Some ''en'',
           ta_task = Some ''transcribe'', ta_vad_filter = True,
           ta_vad_parameters = [(''min_silence_duration_ms'', 500)] \<rparr>, ev]) \<and>
   (\<exists>resp. fst (post_api_transcribe example_whisper example_stt_env Map.empty
                  (Some example_upload) (Some ''en'') None) = Inr resp \<and>
           tr_language resp = ''en'')"
proof -
  note th = language_default_and_auto [OF example_temporary_file refl,
      of example_whisper Map.empty _ None]
  have w: "(\<exists>ev. snd (snd (post_api_transcribe example_whisper example_stt_env Map.empty
                    (Some example_upload) l None)) =
      [Call_transcribe
         \<lparr> ta_audio = ''/tmp/tmpab12cd.mp3'',
           ta_language =
             (case l of
                None \<Rightarrow> Some ''vi''
              | Some x \<Rightarrow> if x = [] then Some ''vi'' else if x = ''auto'' then None else Some x),
           ta_task = Some ''transcribe'', ta_vad_filter = True,
           ta_vad_parameters = [(''min_silence_duration_ms'', 500)] \<rparr>, ev]) \<and>
     (\<exists>resp. fst (post_api_transcribe example_whisper example_stt_env Map.empty
                  (Some example_upload) l None) = Inr resp \<and>
           tr_language resp =
             (case (case l of
                None \<Rightarrow> Some ''vi''
              | Some x \<Rightarrow> if x = [] then Some ''vi'' else if x = ''auto'' then None else Some x) of
                None \<Rightarrow> ''ja'' | Some x \<Rightarrow> x))" for l
  proof -
    from th [of l] obtain ev where "snd (snd (post_api_transcribe example_whisper
        example_stt_env Map.empty (Some example_upload) l None)) =
      [Call_transcribe
         \<lparr> ta_audio = ''/tmp/tmpab12cd.mp3'',
           ta_language =
             (case l of
                None \<Rightarrow> Some ''vi''
              | Some x \<Rightarrow> if x = [] then Some ''vi'' else if x = ''auto'' then None else Some x),
           ta_task = Some ''transcribe'', ta_vad_filter = True,
           ta_vad_parameters = [(''min_silence_duration_ms'', 500)] \<rparr>, ev]"
      by auto
    moreover from th [of l, THEN conjunct2, THEN conjunct1]
    have "fst (post_api_transcribe example_whisper example_stt_env Map.empty
        (Some example_upload) l None) =
      Inr \<lparr> tr_text = ''xin chao the gioi'',
         tr_segments =
           [\<lparr> rs_start = 0, rs_end = 123 / 100, rs_text = ''xin chao'' \<rparr>,
            \<lparr> rs_start = 123 / 100, rs_end = 5 / 2, rs_text = ''the gioi'' \<rparr>],
         tr_language = (case (case l of
                None \<Rightarrow> Some ''vi''
              | Some x \<Rightarrow> if x = [] then Some ''vi'' else if x = ''auto'' then None else Some x) of
                None \<Rightarrow> ''ja'' | Some x \<Rightarrow> x),
         tr_language_probability = 988 / 1000,
         tr_duration = 5 / 2, tr_process_time = 1 \<rparr>"
      by (simp only: example_answer option.case)
    ultimately show ?thesis by simp
  qed
  from w [of None] w [of "Some ''auto''"] w [of "Some ''en''"] show ?thesis
    by simp
qed

text \<open>
  C10 as written passes every supplied string other than "auto" on unchanged. The
  empty string is supplied and is not passed on: the model is called with "vi".
\<close>

theorem empty_language_counterexample:
  "snd (snd (post_api_transcribe example_whisper example_stt_env Map.empty
               (Some example_upload) (Some []) None)) =
     [Call_transcribe
        \<lparr> ta_audio = ''/tmp/tmpab12cd.mp3'', ta_language = Some ''vi'',
          ta_task = Some ''transcribe'', ta_vad_filter = True,
          ta_vad_parameters = [(''min_silence_duration_ms'', 500)] \<rparr>,
      Log_info_STT ''vi'' (5 / 2) 1 2] \<and>
   ta_language
     \<lparr> ta_audio = ''/tmp/tmpab12cd.mp3'', ta_language = Some ''vi'',
       ta_task = Some ''transcribe'', ta_vad_filter = True,
       ta_vad_parameters = [(''min_silence_duration_ms'', 500)] \<rparr> \<noteq> Some []"
  by (simp add: post_api_transcribe_def transcribe_api_def transcribe_try_def do_transcribe_def
      example_whisper_def example_stt_env_def example_upload_def
      example_segments_def splitext_def example_rounding py_strip_def isspace_def Let_def)

subsection \<open>The temporary file\<close>

text \<open>
  C2. The claim that the temporary file is removed on every way out of the handler
  does not hold of the code. When reading the upload raises, or when writing it to the
  temporary file raises, the exception leaves the handler from inside the \<^verbatim>\<open>with\<close>
  block, before the \<^verbatim>\<open>try\<close> whose \<^verbatim>\<open>finally\<close> unlinks the file, and the file that
  \<^verbatim>\<open>NamedTemporaryFile(delete=False)\<close> created is still there when the handler has
  returned.
\<close>

theorem temp_file_left_behind:
  "fst (post_api_transcribe example_whisper example_stt_env Map.empty (Some broken_upload)
          None None) = Inl (Uncaught (Exception ''client disconnected'')) \<and>
   fst (snd (post_api_transcribe example_whisper example_stt_env Map.empty (Some broken_upload)
          None None)) ''/tmp/tmpab12cd.mp3'' = Some [] \<and>
   fst (post_api_transcribe example_whisper full_disk_env Map.empty (Some example_upload)
          None None) = Inl (Uncaught (Exception ''No space left on device'')) \<and>
   fst (snd (post_api_transcribe example_whisper full_disk_env Map.empty (Some example_upload)
          None None)) ''/tmp/tmpab12cd.mp3'' = Some []"
  by (simp add: post_api_transcribe_def transcribe_api_def example_stt_env_def full_disk_env_def
      broken_upload_def example_upload_def splitext_def Let_def)

lemma transcribe_try_unlinks:
  "fst (snd (transcribe_try m env fs p language task)) p = None"
  by (simp add: transcribe_try_def Let_def split: sum.splits prod.splits)

text \<open>
  Once the upload is written, the file is removed on both ways out of the
  \<^verbatim>\<open>try\<close>.
\<close>

lemma temp_file_removed_once_written:
  assumes "se_NamedTemporaryFile env
             (snd (splitext (case uf_filename upload of
                               None \<Rightarrow> ''audio.wav''
                             | Some n \<Rightarrow> if n = [] then ''audio.wav'' else n))) = Inr p"
    and "uf_read upload = Inr content" and "se_write env content = None"
  shows "fst (snd (transcribe_api m env fs upload language task)) p = None"
  using assms transcribe_try_unlinks
  by (simp add: transcribe_api_def Let_def)

end
